theory Spec2Isabelle
  imports Complex_Main
begin

section \<open>Assets and derivatives\<close>

subsection \<open>Assets\<close>

text \<open>
  Modelled from the spec: the asset type enumeration is declared in the Asset module, which
  is not part of the sources at hand. The specification lists the members
  Model, Geometry, Image, Texture and leaves further members open; every further member is
  represented by \<open>OtherAssetType\<close> with its index.
\<close>

datatype EAssetType = Model | Geometry | Image | Texture | OtherAssetType nat

text \<open>
  Modelled from the spec: the map type enumeration of the Asset module, with the five
  members the specification lists; these are the members \<open>assignTextures\<close> switches on.
\<close>

datatype EMapType = Color | Occlusion | Emissive | MetallicRoughness | Normal

text \<open>
  Modelled from the spec: the Asset class is not part of the sources at hand. An asset
  carries the three fields the derivative reads and writes (\<open>uri\<close>, \<open>type\<close>, \<open>mapType\<close>);
  \<open>mapType\<close> may be undefined, which is \<open>None\<close>.
\<close>

record Asset =
  uri :: string
  type :: EAssetType
  mapType :: "EMapType option"

text \<open>
  Modelled from the spec: persisted asset data has the shape of the asset itself
  ("serializes back to the same shape"), so \<open>new Asset(data)\<close> and \<open>asset.toData()\<close>
  copy the fields.
\<close>

type_synonym IAsset = Asset

text \<open>Modelled from the spec: \<open>new Asset(data)\<close>, an asset "constructed from persisted data".\<close>

definition Asset_new :: "IAsset \<Rightarrow> Asset" where
  "Asset_new data = \<lparr>uri = uri data, type = type data, mapType = mapType data\<rparr>"

text \<open>Modelled from the spec: \<open>asset.toData()\<close>, which "serializes back to the same shape".\<close>

definition Asset_toData :: "Asset \<Rightarrow> IAsset" where
  "Asset_toData asset = \<lparr>uri = uri asset, type = type asset, mapType = mapType asset\<rparr>"

text \<open>
  Modelled from the spec: an asset "constructed ... empty", as \<open>new Asset()\<close> gives it.
  Its only caller overwrites \<open>uri\<close> and \<open>type\<close> at once, so the initial \<open>type\<close> is
  taken as an argument.
\<close>

definition Asset_empty :: "EAssetType \<Rightarrow> Asset" where
  "Asset_empty t0 = \<lparr>uri = [], type = t0, mapType = None\<rparr>"

subsection \<open>The rendering library's objects\<close>

text \<open>
  The rendering library is an external collaborator. Its objects are represented by the
  parts the derivative touches. A texture is known by its identity. A geometry has an
  identity and its vertices (in world coordinates). Coordinates are only compared with
  each other (minimum and maximum), and are taken as real numbers.
\<close>

type_synonym Texture = nat

type_synonym Vector3 = "real \<times> real \<times> real"

record BufferGeometry =
  gid :: nat
  vertices :: "Vector3 list"

text \<open>
  Modelled from the spec: the material class is not part of the sources at hand; it is
  a "physically-based material" with "named texture-map slots". It has the six texture
  map slots and the three shading values that \<open>load\<close>, \<open>assignTextures\<close> and
  \<open>disposeMesh\<close> read and write; an empty slot (null or undefined) is \<open>None\<close>. The slot
  \<open>map\<close> is named \<open>map_slot\<close> here.
\<close>

record UberMaterial =
  map_slot :: "Texture option"
  aoMap :: "Texture option"
  emissiveMap :: "Texture option"
  metalnessMap :: "Texture option"
  roughnessMap :: "Texture option"
  normalMap :: "Texture option"
  color :: Vector3
  roughness :: real
  metalness :: real

record Mesh =
  geometry :: BufferGeometry
  material :: UberMaterial

text \<open>
  A scene-graph node: it is a mesh (\<open>isMesh\<close>) when it carries a geometry and a material,
  and it has child nodes.
\<close>

datatype Object3D = Object3D (mesh: "Mesh option") (children: "Object3D list")

text \<open>\<open>object.traverse(callback)\<close> visits the node itself, then its children in order.\<close>

fun traverse :: "Object3D \<Rightarrow> Object3D list" where
  "traverse (Object3D m cs) = Object3D m cs # concat (map traverse cs)"

text \<open>
  A bounding box is empty or has a minimum and a maximum corner. The library keeps an
  empty box as the corners (+Infinity, -Infinity); expanding that box by a point gives
  the box of the point alone, which is what \<open>expandByPoint\<close> does with \<open>None\<close>.
\<close>

type_synonym Box3 = "(Vector3 \<times> Vector3) option"

definition vmin :: "Vector3 \<Rightarrow> Vector3 \<Rightarrow> Vector3" where
  "vmin a b = (case a of (ax, ay, az) \<Rightarrow> case b of (bx, by, bz) \<Rightarrow>
     (min ax bx, min ay by, min az bz))"

definition vmax :: "Vector3 \<Rightarrow> Vector3 \<Rightarrow> Vector3" where
  "vmax a b = (case a of (ax, ay, az) \<Rightarrow> case b of (bx, by, bz) \<Rightarrow>
     (max ax bx, max ay by, max az bz))"

definition makeEmpty :: "Box3 \<Rightarrow> Box3" where
  "makeEmpty box = None"

definition expandByPoint :: "Box3 \<Rightarrow> Vector3 \<Rightarrow> Box3" where
  "expandByPoint box p =
     (case box of None \<Rightarrow> Some (p, p) | Some (lo, hi) \<Rightarrow> Some (vmin lo p, vmax hi p))"

definition union_box :: "Box3 \<Rightarrow> Box3 \<Rightarrow> Box3" where
  "union_box a b =
     (case a of None \<Rightarrow> b
      | Some (alo, ahi) \<Rightarrow>
          (case b of None \<Rightarrow> a | Some (blo, bhi) \<Rightarrow> Some (vmin alo blo, vmax ahi bhi)))"

text \<open>
  \<open>box.expandByObject(object)\<close> traverses the object and expands the box by every vertex
  of every node that has a geometry.
\<close>

definition expandByNode :: "Box3 \<Rightarrow> Object3D \<Rightarrow> Box3" where
  "expandByNode box node =
     (case mesh node of None \<Rightarrow> box
      | Some m \<Rightarrow> foldl expandByPoint box (vertices (geometry m)))"

definition expandByObject :: "Box3 \<Rightarrow> Object3D \<Rightarrow> Box3" where
  "expandByObject box object = foldl expandByNode box (traverse object)"

subsection \<open>Derivative\<close>

datatype EDerivativeUsage = Web | Print | Editorial

datatype EDerivativeQuality = Thumb | Low | Medium | High | Highest | LOD | Stream

text \<open>The reverse mapping of the two enumerations, from a member to its name.\<close>

fun EDerivativeUsage_name :: "EDerivativeUsage \<Rightarrow> string" where
  "EDerivativeUsage_name Web = ''Web''"
| "EDerivativeUsage_name Print = ''Print''"
| "EDerivativeUsage_name Editorial = ''Editorial''"

fun EDerivativeQuality_name :: "EDerivativeQuality \<Rightarrow> string" where
  "EDerivativeQuality_name Thumb = ''Thumb''"
| "EDerivativeQuality_name Low = ''Low''"
| "EDerivativeQuality_name Medium = ''Medium''"
| "EDerivativeQuality_name High = ''High''"
| "EDerivativeQuality_name Highest = ''Highest''"
| "EDerivativeQuality_name LOD = ''LOD''"
| "EDerivativeQuality_name Stream = ''Stream''"

text \<open>The field \<open>id\<close> is named \<open>id_field\<close>; a null \<open>model\<close> is \<open>None\<close>.\<close>

record Derivative =
  id_field :: string
  usage :: EDerivativeUsage
  quality :: EDerivativeQuality
  assets :: "Asset list"
  model :: "Object3D option"
  boundingBox :: Box3

record IDerivative =
  data_usage :: string
  data_quality :: string
  data_assets :: "IAsset list"

datatype error = TypeError | Error string | Rejection string

text \<open>
  The constructor. Its third parameter is optional; \<open>None\<close> is an omitted or undefined
  argument, on which \<open>assetData.map\<close> throws a TypeError. A new \<open>Box3\<close> is empty.
\<close>

definition Derivative_new ::
  "EDerivativeUsage \<Rightarrow> EDerivativeQuality \<Rightarrow> IAsset list option \<Rightarrow> error + Derivative" where
  "Derivative_new usage0 quality0 assetData =
     (case assetData of
        None \<Rightarrow> Inl TypeError
      | Some datas \<Rightarrow>
          Inr \<lparr>id_field = [], usage = usage0, quality = quality0,
               assets = map Asset_new datas, model = None, boundingBox = None\<rparr>)"

definition findAsset :: "EAssetType \<Rightarrow> Derivative \<Rightarrow> Asset option" where
  "findAsset t0 d = find (\<lambda>asset. type asset = t0) (assets d)"

definition findAssets :: "EAssetType \<Rightarrow> Derivative \<Rightarrow> Asset list" where
  "findAssets t0 d = filter (\<lambda>asset. type asset = t0) (assets d)"

text \<open>
  \<open>addAsset\<close> returns the error it throws (\<open>None\<close> when it returns normally) and the
  derivative as it is afterwards.
\<close>

definition addAsset ::
  "string \<Rightarrow> EAssetType \<Rightarrow> EMapType option \<Rightarrow> Derivative \<Rightarrow> error option \<times> Derivative" where
  "addAsset uri0 type0 mapType0 d =
     (if uri0 = [] then (Some (Error ''uri must be specified''), d)
      else
        let asset = (Asset_empty type0)\<lparr>uri := uri0, type := type0\<rparr>;
            asset = (if type0 = Texture \<and> mapType0 \<noteq> None
                     then asset\<lparr>mapType := mapType0\<rparr> else asset)
        in (None, d\<lparr>assets := assets d @ [asset]\<rparr>))"

definition toData :: "Derivative \<Rightarrow> IDerivative" where
  "toData d =
     \<lparr>data_usage = EDerivativeUsage_name (usage d),
      data_quality = EDerivativeQuality_name (quality d),
      data_assets = map Asset_toData (assets d)\<rparr>"

subsection \<open>Loading\<close>

text \<open>
  Modelled from the spec: the loading manager class is not part of the sources at hand;
  it is a collaborator with "a model-loader, geometry-loader, texture-loader", each giving
  a promise of its result. A promise resolves with a value (\<open>Inr\<close>) or rejects with a
  reason (\<open>Inl\<close>). Every call of a loader is recorded, in the order the calls are issued.
\<close>

record LoadingManager =
  loadModel :: "Asset \<Rightarrow> string option \<Rightarrow> error + Object3D"
  loadGeometry :: "Asset \<Rightarrow> string option \<Rightarrow> error + BufferGeometry"
  loadTexture :: "Asset \<Rightarrow> string option \<Rightarrow> error + Texture"

datatype load_call =
  LoadModelCall Asset "string option"
| LoadGeometryCall Asset "string option"
| LoadTextureCall Asset "string option"

text \<open>
  \<open>Promise.all\<close>: resolves with all the values when every promise resolves, and rejects
  when one of them rejects.
\<close>

fun Promise_all :: "(error + 'a) list \<Rightarrow> error + 'a list" where
  "Promise_all [] = Inr []"
| "Promise_all (Inl e # ps) = Inl e"
| "Promise_all (Inr x # ps) =
     (case Promise_all ps of Inl e \<Rightarrow> Inl e | Inr xs \<Rightarrow> Inr (x # xs))"

text \<open>\<open>textures[i]\<close>: undefined beyond the end of the array.\<close>

definition texture_at :: "Texture list \<Rightarrow> nat \<Rightarrow> Texture option" where
  "texture_at textures i = (if i < length textures then Some (textures ! i) else None)"

text \<open>The body of the loop of \<open>assignTextures\<close>: the switch on \<open>asset.mapType\<close>.\<close>

definition assignTexture :: "Asset \<Rightarrow> Texture option \<Rightarrow> UberMaterial \<Rightarrow> UberMaterial" where
  "assignTexture asset texture material0 =
     (case mapType asset of
        Some Color \<Rightarrow> material0\<lparr>map_slot := texture\<rparr>
      | Some Occlusion \<Rightarrow> material0\<lparr>aoMap := texture\<rparr>
      | Some Emissive \<Rightarrow> material0\<lparr>emissiveMap := texture\<rparr>
      | Some MetallicRoughness \<Rightarrow> material0\<lparr>metalnessMap := texture, roughnessMap := texture\<rparr>
      | Some Normal \<Rightarrow> material0\<lparr>normalMap := texture\<rparr>
      | None \<Rightarrow> material0)"

definition assignTextures :: "Asset list \<Rightarrow> Texture list \<Rightarrow> UberMaterial \<Rightarrow> UberMaterial" where
  "assignTextures assets0 textures material0 =
     fold (\<lambda>i m. assignTexture (assets0 ! i) (texture_at textures i) m)
       [0 ..< length assets0] material0"

text \<open>
  What \<open>load\<close> does: how the promise it returns settles (or that it returns undefined),
  the derivative afterwards, and the loader calls issued. The material that
  \<open>new UberMaterial()\<close> constructs is an argument, since that class is a collaborator.
\<close>

datatype outcome = Resolves | Rejects error | ReturnsUndefined

definition load ::
  "LoadingManager \<Rightarrow> UberMaterial \<Rightarrow> string option \<Rightarrow> Derivative
     \<Rightarrow> outcome \<times> Derivative \<times> load_call list" where
  "load loadingManager newMaterial assetPath d =
     (case findAsset Model d of
        Some modelAsset \<Rightarrow>
          (case loadModel loadingManager modelAsset assetPath of
             Inl e \<Rightarrow> (Rejects e, d, [LoadModelCall modelAsset assetPath])
           | Inr object \<Rightarrow>
               (Resolves,
                d\<lparr>model := Some object,
                  boundingBox := expandByObject (makeEmpty (boundingBox d)) object\<rparr>,
                [LoadModelCall modelAsset assetPath]))
      | None \<Rightarrow>
          let imageAssets = findAssets Image d in
          (case findAsset Geometry d of
             None \<Rightarrow> (ReturnsUndefined, d, [])
           | Some geoAsset \<Rightarrow>
               (case loadGeometry loadingManager geoAsset assetPath of
                  Inl e \<Rightarrow> (Rejects e, d, [LoadGeometryCall geoAsset assetPath])
                | Inr geometry0 \<Rightarrow>
                    let object = Object3D (Some \<lparr>geometry = geometry0, material = newMaterial\<rparr>) [];
                        box = expandByObject (makeEmpty (boundingBox d)) object;
                        textures =
                          (case Promise_all
                                  (map (\<lambda>asset. loadTexture loadingManager asset assetPath)
                                     imageAssets) of
                             Inl e \<Rightarrow> []
                           | Inr ts \<Rightarrow> ts);
                        material1 = assignTextures imageAssets textures newMaterial;
                        material2 =
                          (if map_slot material1 = None
                           then material1\<lparr>color := (0.5, 0.5, 0.5), roughness := 0.8,
                                  metalness := 0\<rparr>
                           else material1)
                    in (Resolves,
                        d\<lparr>model := Some (Object3D (Some \<lparr>geometry = geometry0,
                                                         material = material2\<rparr>) []),
                          boundingBox := box\<rparr>,
                        LoadGeometryCall geoAsset assetPath
                          # map (\<lambda>asset. LoadTextureCall asset assetPath) imageAssets))))"

subsection \<open>Disposal\<close>

text \<open>
  A release call is a call of \<open>dispose()\<close> on a geometry or on a texture. \<open>disposeMesh\<close>
  gives the calls it makes, in order.
\<close>

datatype release_call = ReleaseGeometry nat | ReleaseTexture Texture

definition release_slot :: "Texture option \<Rightarrow> release_call list" where
  "release_slot slot = (case slot of Some t \<Rightarrow> [ReleaseTexture t] | None \<Rightarrow> [])"

definition disposeMesh :: "Mesh \<Rightarrow> release_call list" where
  "disposeMesh mesh0 =
     (let material0 = material mesh0 in
      ReleaseGeometry (gid (geometry mesh0))
        # release_slot (map_slot material0)
        @ release_slot (aoMap material0)
        @ release_slot (emissiveMap material0)
        @ release_slot (metalnessMap material0)
        @ release_slot (roughnessMap material0)
        @ release_slot (normalMap material0))"

text \<open>
  \<open>dispose\<close> takes the release calls made so far and returns the derivative as it is
  afterwards, with the calls it has added.
\<close>

definition dispose :: "Derivative \<Rightarrow> release_call list \<Rightarrow> Derivative \<times> release_call list" where
  "dispose d released =
     (case model d of
        None \<Rightarrow> (d, released)
      | Some m \<Rightarrow>
          (d, released
              @ concat (map (\<lambda>object. case mesh object of Some mesh0 \<Rightarrow> disposeMesh mesh0
                                                        | None \<Rightarrow> [])
                          (traverse m))))"

section \<open>The asset loader's loading signal\<close>

text \<open>
  The state: the three counters the library's loading manager keeps, and the value of the
  asset loader's output \<open>loading\<close>.
\<close>

record LoaderState =
  itemsLoaded :: nat
  itemsTotal :: nat
  isLoading :: bool
  loading :: bool

text \<open>The four callbacks of \<open>PrivateLoadingManager\<close>; logging aside, they set \<open>loading\<close>.\<close>

definition onLoadingStart :: "LoaderState \<Rightarrow> LoaderState" where
  "onLoadingStart s = s\<lparr>loading := True\<rparr>"

definition onLoadingProgress :: "string \<Rightarrow> nat \<Rightarrow> nat \<Rightarrow> LoaderState \<Rightarrow> LoaderState" where
  "onLoadingProgress url loaded0 total0 s = s"

definition onLoadingCompleted :: "LoaderState \<Rightarrow> LoaderState" where
  "onLoadingCompleted s = s\<lparr>loading := False\<rparr>"

definition onLoadingError :: "LoaderState \<Rightarrow> LoaderState" where
  "onLoadingError s = s\<lparr>loading := False\<rparr>"

text \<open>
  Modelled from the spec: the loading manager "tracks in-flight load count, exposes
  start/progress/complete/error signals". It is the rendering library's class, not part of
  the sources at hand. A loader reports the start, the end and the failure of an item.
  The manager calls \<open>onStart\<close> when an item starts while nothing is loading.
\<close>

definition itemStart :: "string \<Rightarrow> LoaderState \<Rightarrow> LoaderState" where
  "itemStart url s =
     (let s1 = s\<lparr>itemsTotal := Suc (itemsTotal s)\<rparr>;
          s2 = (if \<not> isLoading s1 then onLoadingStart s1 else s1)
      in s2\<lparr>isLoading := True\<rparr>)"

text \<open>
  Modelled from the spec: the end of an item. The manager calls \<open>onProgress\<close> at the end
  of every item, and \<open>onLoad\<close> when the last outstanding item ends.
\<close>

definition itemEnd :: "string \<Rightarrow> LoaderState \<Rightarrow> LoaderState" where
  "itemEnd url s =
     (let s1 = s\<lparr>itemsLoaded := Suc (itemsLoaded s)\<rparr>;
          s2 = onLoadingProgress url (itemsLoaded s1) (itemsTotal s1) s1
      in if itemsLoaded s2 = itemsTotal s2
         then onLoadingCompleted (s2\<lparr>isLoading := False\<rparr>)
         else s2)"

text \<open>
  Modelled from the spec: the failure of an item. The manager calls \<open>onError\<close> at every
  failure, and leaves its counters as they are.
\<close>

definition itemError :: "string \<Rightarrow> LoaderState \<Rightarrow> LoaderState" where
  "itemError url s = onLoadingError s"

datatype item_event = ItemStart string | ItemEnd string | ItemError string

fun item_step :: "LoaderState \<Rightarrow> item_event \<Rightarrow> LoaderState" where
  "item_step s (ItemStart url) = itemStart url s"
| "item_step s (ItemEnd url) = itemEnd url s"
| "item_step s (ItemError url) = itemError url s"

definition run_items :: "item_event list \<Rightarrow> LoaderState \<Rightarrow> LoaderState" where
  "run_items evs s = foldl item_step s evs"

definition idle :: LoaderState where
  "idle = \<lparr>itemsLoaded = 0, itemsTotal = 0, isLoading = False, loading = False\<rparr>"

text \<open>The loads in flight: the items started and not yet ended.\<close>

definition outstanding :: "LoaderState \<Rightarrow> nat" where
  "outstanding s = itemsTotal s - itemsLoaded s"

fun is_error :: "item_event \<Rightarrow> bool" where
  "is_error (ItemError url) = True"
| "is_error ev = False"

section \<open>Enumerations in persisted documents\<close>

text \<open>
  The values an enumeration lookup can give: undefined, a number, a string, or a
  property inherited from the object prototype (known by its key).
\<close>

datatype jsvalue = JUndefined | JNum nat | JStr string | JInherited string

fun truthy :: "jsvalue \<Rightarrow> bool" where
  "truthy JUndefined = False"
| "truthy (JNum n) = (n \<noteq> 0)"
| "truthy (JStr s) = (s \<noteq> [])"
| "truthy (JInherited k) = True"

definition js_or :: "jsvalue \<Rightarrow> jsvalue \<Rightarrow> jsvalue" where
  "js_or a b = (if truthy a then a else b)"

text \<open>The property key of a string, and of undefined.\<close>

definition key_of :: "string option \<Rightarrow> string" where
  "key_of v = (case v of None \<Rightarrow> ''undefined'' | Some s \<Rightarrow> s)"

definition digit_char :: "nat \<Rightarrow> char" where
  "digit_char d = ''0123456789'' ! d"

fun decimal :: "nat \<Rightarrow> string" where
  "decimal n = (if n < 10 then [digit_char n] else decimal (n div 10) @ [digit_char (n mod 10)])"

declare decimal.simps [simp del]

definition Object_prototype_keys :: "string list" where
  "Object_prototype_keys =
     [''constructor'', ''hasOwnProperty'', ''isPrototypeOf'', ''propertyIsEnumerable'',
      ''toLocaleString'', ''toString'', ''valueOf'', ''__proto__'', ''__defineGetter__'',
      ''__defineSetter__'', ''__lookupGetter__'', ''__lookupSetter__'']"

text \<open>
  A numeric enumeration, given by its member names in the order of declaration, is an
  object with a property for each name (its index) and one for each index in decimal (its
  name); this second mapping is what \<open>toDocument\<close> and \<open>toData\<close> read. \<open>enum_get names key\<close>
  is the lookup \<open>E[key]\<close>. The declarations of \<open>EUnitType\<close> and \<open>EReaderPosition\<close> are not
  part of the sources at hand, so the member names are an argument.
\<close>

definition enum_get :: "string list \<Rightarrow> string \<Rightarrow> jsvalue" where
  "enum_get names key =
     (case find (\<lambda>i. names ! i = key) [0 ..< length names] of
        Some i \<Rightarrow> JNum i
      | None \<Rightarrow>
          (case find (\<lambda>i. decimal i = key) [0 ..< length names] of
             Some i \<Rightarrow> JStr (names ! i)
           | None \<Rightarrow> if key \<in> set Object_prototype_keys then JInherited key else JUndefined))"

subsection \<open>CVReader\<close>

record IReader =
  data_visible :: "bool option"
  data_position :: "string option"
  data_url :: "string option"

record CVReader =
  visible :: bool
  position :: jsvalue
  url :: "string option"

text \<open>
  \<open>fromData\<close>: missing data stands for the empty object, all of whose fields are
  undefined. \<open>names\<close> are the members of \<open>EReaderPosition\<close>.
\<close>

definition CVReader_fromData :: "string list \<Rightarrow> IReader option \<Rightarrow> CVReader \<Rightarrow> CVReader" where
  "CVReader_fromData names data0 r =
     (let data = (case data0 of
                    None \<Rightarrow> \<lparr>data_visible = None, data_position = None, data_url = None\<rparr>
                  | Some x \<Rightarrow> x)
      in r\<lparr>visible := (data_visible data = Some True),
           position := js_or (enum_get names (key_of (data_position data)))
                         (enum_get names ''Overlay''),
           url := data_url data\<rparr>)"

section \<open>The scene\<close>

text \<open>
  Modelled from the spec: the model component is not part of the sources at hand; it is a
  "model node" with a bounding box. The scene uses its identity and its \<open>object3D\<close>.
\<close>

record CVModel2 =
  model_id :: nat
  object3D :: Object3D

record IComponentEvent =
  add :: bool
  remove :: bool
  object :: CVModel2

text \<open>
  The scene's state: the value of its input \<open>units\<close> and that input's change flag, the
  model components the graph holds (what the getter \<open>models\<close> returns), the models whose
  event "bounding-box" the scene listens to, the models whose \<open>globalUnits\<close> input is
  linked from \<open>units\<close>, the aggregate box, and the events the scene has emitted.
\<close>

record CVScene =
  units :: jsvalue
  units_changed :: bool
  models :: "CVModel2 list"
  listening :: "nat list"
  linked :: "nat list"
  modelBoundingBox :: Box3
  emitted :: "string list"

definition updateModelBoundingBox :: "CVScene \<Rightarrow> CVScene" where
  "updateModelBoundingBox s =
     (let box = makeEmpty (modelBoundingBox s);
          box = foldl (\<lambda>b model0. expandByObject b (object3D model0)) box (models s)
      in s\<lparr>modelBoundingBox := box, emitted := emitted s @ [''bounding-box'']\<rparr>)"

definition onModelComponent :: "IComponentEvent \<Rightarrow> CVScene \<Rightarrow> CVScene" where
  "onModelComponent event s =
     (let model0 = object event;
          s1 = (if add event
                then s\<lparr>listening := listening s @ [model_id model0],
                       linked := linked s @ [model_id model0]\<rparr>
                else s);
          s2 = (if remove event
                then s1\<lparr>listening := removeAll (model_id model0) (listening s1)\<rparr>
                else s1)
      in updateModelBoundingBox s2)"

definition update :: "CVScene \<Rightarrow> CVScene \<times> bool" where
  "update s = ((if units_changed s then updateModelBoundingBox s else s), True)"

text \<open>\<open>names\<close> are the members of \<open>EUnitType\<close>; \<open>setValue\<close> stores the value and flags the change.\<close>

definition CVScene_fromDocument :: "string list \<Rightarrow> string option \<Rightarrow> CVScene \<Rightarrow> CVScene" where
  "CVScene_fromDocument names scene_units s =
     s\<lparr>units := js_or (enum_get names (key_of scene_units)) (JNum 0), units_changed := True\<rparr>"

text \<open>
  Modelled from the spec: the component graph is not part of the sources at hand. It
  holds "the set of model nodes currently attached" and tells the scene of every model
  added, once its own set is up to date.
\<close>

definition graph_add :: "CVModel2 \<Rightarrow> CVScene \<Rightarrow> CVScene" where
  "graph_add model0 s =
     onModelComponent \<lparr>add = True, remove = False, object = model0\<rparr>
       (s\<lparr>models := models s @ [model0]\<rparr>)"

text \<open>
  Modelled from the spec: the component graph tells the scene of every model removed, once
  the model has left "the set of model nodes currently attached".
\<close>

definition graph_remove :: "CVModel2 \<Rightarrow> CVScene \<Rightarrow> CVScene" where
  "graph_remove model0 s =
     onModelComponent \<lparr>add = False, remove = True, object = model0\<rparr>
       (s\<lparr>models := remove1 model0 (models s)\<rparr>)"

text \<open>
  Modelled from the spec: a "member model reports its own bounding box changed"; the
  event reaches the scene when the scene has registered its listener with that model.
\<close>

definition model_bounding_box_event :: "CVModel2 \<Rightarrow> CVScene \<Rightarrow> CVScene" where
  "model_bounding_box_event model0 s =
     (if model_id model0 \<in> set (listening s) then updateModelBoundingBox s else s)"

text \<open>
  Modelled from the spec: a model's own bounding box, which the scene unions with the
  others, is the box of its \<open>object3D\<close> alone.
\<close>

definition model_box :: "CVModel2 \<Rightarrow> Box3" where
  "model_box model0 = expandByObject None (object3D model0)"

section \<open>Notions used in the statements\<close>

text \<open>The six texture map slots of a material, and the slots an asset's map type addresses.\<close>

definition slots :: "UberMaterial \<Rightarrow> Texture option list" where
  "slots m = [map_slot m, aoMap m, emissiveMap m, metalnessMap m, roughnessMap m, normalMap m]"

definition addressed_slots :: "Asset \<Rightarrow> UberMaterial \<Rightarrow> Texture option list" where
  "addressed_slots asset m =
     (case mapType asset of
        Some Color \<Rightarrow> [map_slot m]
      | Some Occlusion \<Rightarrow> [aoMap m]
      | Some Emissive \<Rightarrow> [emissiveMap m]
      | Some MetallicRoughness \<Rightarrow> [metalnessMap m, roughnessMap m]
      | Some Normal \<Rightarrow> [normalMap m]
      | None \<Rightarrow> [])"

text \<open>The material of the derivative's model, \<open>(this.model as Mesh).material\<close>.\<close>

definition loaded_material :: "Derivative \<Rightarrow> UberMaterial option" where
  "loaded_material d =
     (case model d of None \<Rightarrow> None
      | Some obj \<Rightarrow> (case mesh obj of None \<Rightarrow> None | Some m \<Rightarrow> Some (material m)))"

text \<open>
  The release calls due for a model. For a mesh: one for its geometry, then one for every
  map slot that is not empty, in the order of the slots (a texture that two slots hold is
  due once for each of them). For a model: those of its meshes, in the order of traversal.
\<close>

definition present_textures :: "UberMaterial \<Rightarrow> Texture list" where
  "present_textures m =
     concat (map (\<lambda>slot. case slot of None \<Rightarrow> [] | Some t \<Rightarrow> [t]) (slots m))"

definition mesh_release_calls :: "Mesh \<Rightarrow> release_call list" where
  "mesh_release_calls m =
     ReleaseGeometry (gid (geometry m)) # map ReleaseTexture (present_textures (material m))"

definition meshes_of :: "Object3D \<Rightarrow> Mesh list" where
  "meshes_of obj =
     concat (map (\<lambda>node. case mesh node of None \<Rightarrow> [] | Some m \<Rightarrow> [m]) (traverse obj))"

definition model_release_calls :: "Derivative \<Rightarrow> release_call list" where
  "model_release_calls d =
     (case model d of
        None \<Rightarrow> []
      | Some obj \<Rightarrow> concat (map mesh_release_calls (meshes_of obj)))"

text \<open>
  The sequences of item reports a loading manager can receive: an item ends only after
  it has started. \<open>wf_items n evs\<close> says so of \<open>evs\<close> when \<open>n\<close> items are in flight.
\<close>

fun wf_items :: "nat \<Rightarrow> item_event list \<Rightarrow> bool" where
  "wf_items n [] = True"
| "wf_items n (ItemStart u # evs) = wf_items (Suc n) evs"
| "wf_items n (ItemEnd u # evs) = (0 < n \<and> wf_items (n - 1) evs)"
| "wf_items n (ItemError u # evs) = wf_items n evs"

definition loader_inv :: "LoaderState \<Rightarrow> bool" where
  "loader_inv s =
     (itemsLoaded s \<le> itemsTotal s \<and> isLoading s = (itemsLoaded s < itemsTotal s) \<and>
      (if loading s then isLoading s else True))"

text \<open>The union of a list of boxes.\<close>

definition union_boxes :: "Box3 list \<Rightarrow> Box3" where
  "union_boxes boxes = foldl union_box None boxes"

section \<open>Example inputs\<close>

text \<open>
  A material without textures; a loading manager whose model loader fails, whose geometry
  loader succeeds and whose texture loader succeeds on the one file \<open>color.jpg\<close>; a second
  one whose model loader succeeds as well.
\<close>

definition mat0 :: UberMaterial where
  "mat0 = \<lparr>map_slot = None, aoMap = None, emissiveMap = None, metalnessMap = None,
           roughnessMap = None, normalMap = None, color = (1, 1, 1), roughness = 1,
           metalness = 1\<rparr>"

definition geo0 :: BufferGeometry where
  "geo0 = \<lparr>gid = 1, vertices = [(0, 0, 0), (1, 2, 3)]\<rparr>"

definition obj0 :: Object3D where
  "obj0 = Object3D None [Object3D (Some \<lparr>geometry = \<lparr>gid = 5, vertices = [(2, 2, 2)]\<rparr>,
                                        material = mat0\<lparr>map_slot := Some 9\<rparr>\<rparr>) []]"

definition lm0 :: LoadingManager where
  "lm0 = \<lparr>loadModel = (\<lambda>a p. Inl (Rejection ''no model'')),
          loadGeometry = (\<lambda>a p. Inr geo0),
          loadTexture = (\<lambda>a p. if uri a = ''color.jpg'' then Inr 7
                                 else Inl (Rejection ''not found''))\<rparr>"

definition lm1 :: LoadingManager where
  "lm1 = lm0\<lparr>loadModel := (\<lambda>a p. Inr obj0)\<rparr>"

definition geo_asset :: Asset where
  "geo_asset = \<lparr>uri = ''geo.obj'', type = Geometry, mapType = None\<rparr>"

definition color_asset :: Asset where
  "color_asset = \<lparr>uri = ''color.jpg'', type = Image, mapType = Some Color\<rparr>"

definition normal_asset :: Asset where
  "normal_asset = \<lparr>uri = ''normal.jpg'', type = Image, mapType = Some Normal\<rparr>"

definition mr_asset :: Asset where
  "mr_asset = \<lparr>uri = ''color.jpg'', type = Image, mapType = Some MetallicRoughness\<rparr>"

definition model_asset :: Asset where
  "model_asset = \<lparr>uri = ''model.glb'', type = Model, mapType = None\<rparr>"

text \<open>
  Three derivatives: a geometry with a colour map that loads and a normal map that
  does not; a geometry with a metallic-roughness map; a geometry, a colour map and a model.
\<close>

definition d0 :: Derivative where
  "d0 = \<lparr>id_field = [], usage = Web, quality = Low,
         assets = [geo_asset, color_asset, normal_asset], model = None, boundingBox = None\<rparr>"

definition d1 :: Derivative where
  "d1 = \<lparr>id_field = [], usage = Web, quality = Low,
         assets = [geo_asset, mr_asset], model = None, boundingBox = None\<rparr>"

definition d2 :: Derivative where
  "d2 = \<lparr>id_field = [], usage = Web, quality = Low,
         assets = [geo_asset, color_asset, model_asset], model = None, boundingBox = None\<rparr>"

text \<open>A scene without models, a model, a reader, and two enumerations.\<close>

definition scene0 :: CVScene where
  "scene0 = \<lparr>units = JNum 1, units_changed = True, models = [], listening = [], linked = [],
             modelBoundingBox = None, emitted = []\<rparr>"

definition model0 :: CVModel2 where
  "model0 = \<lparr>model_id = 1, object3D = Object3D (Some \<lparr>geometry = geo0, material = mat0\<rparr>) []\<rparr>"

definition reader0 :: CVReader where
  "reader0 = \<lparr>visible = False, position = JNum 0, url = None\<rparr>"

definition unit_names :: "string list" where
  "unit_names = [''mm'', ''cm'', ''m'']"

definition position_names :: "string list" where
  "position_names = [''Overlay'', ''Left'', ''Right'']"

section \<open>Properties of the derivative\<close>

subsection \<open>Construction, serialization, adding assets\<close>

lemma Asset_roundtrip: "Asset_toData (Asset_new data) = data"
  by (cases data) (simp add: Asset_toData_def Asset_new_def)

lemma Asset_roundtrip_map: "map Asset_toData (map Asset_new datas) = datas"
  by (induction datas) (simp_all add: Asset_roundtrip)

text \<open>
  Claim C10. When the constructor's argument \<open>assetData\<close> is omitted or undefined,
  construction throws; it does not produce a derivative with an empty asset list. Hence
  every derivative that has been constructed has a defined list of assets (one for each
  entry of the asset data, possibly none), a null model and an empty bounding box.
\<close>

theorem constructor_without_asset_data_throws:
  "Derivative_new u q None = Inl TypeError \<and>
   (\<forall>d. Derivative_new u q assetData = Inr d \<longrightarrow>
      (\<exists>datas. assetData = Some datas \<and> assets d = map Asset_new datas) \<and>
      model d = None \<and> boundingBox d = None)"
proof (intro conjI allI impI)
  show "Derivative_new u q None = Inl TypeError"
    by (simp add: Derivative_new_def)
next
  fix d
  assume constructed: "Derivative_new u q assetData = Inr d"
  then obtain datas where datas: "assetData = Some datas"
    by (cases assetData) (simp_all add: Derivative_new_def)
  with constructed show "\<exists>datas. assetData = Some datas \<and> assets d = map Asset_new datas"
    by (auto simp: Derivative_new_def)
  from constructed datas show "model d = None" "boundingBox d = None"
    by (auto simp: Derivative_new_def)
qed

text \<open>Claim C10 at the usage Web and the quality Low, without and with (empty) asset data.\<close>

theorem constructor_without_asset_data_throws_witness:
  "Derivative_new Web Low None = Inl TypeError \<and>
   (\<exists>d. Derivative_new Web Low (Some []) = Inr d \<and>
        assets d = [] \<and> model d = None \<and> boundingBox d = None)"
  using constructor_without_asset_data_throws [of Web Low "Some []"]
  by (simp add: Derivative_new_def)

text \<open>
  Claim C5. A derivative constructed with the usage Editorial and the quality High
  serializes to an object whose usage is the string "Editorial" and whose quality is the
  string "High", the assets being serialized by their own serialization. For every usage
  and quality, \<open>toData\<close> gives back the names of the two members and the asset data the
  derivative was constructed from.
\<close>

theorem toData_inverse_of_construction:
  "(\<exists>d. Derivative_new u q (Some datas) = Inr d \<and>
        toData d = \<lparr>data_usage = EDerivativeUsage_name u,
                     data_quality = EDerivativeQuality_name q,
                     data_assets = map Asset_toData (assets d)\<rparr> \<and>
        map Asset_toData (assets d) = datas) \<and>
   (\<exists>d. Derivative_new Editorial High (Some datas) = Inr d \<and>
        toData d = \<lparr>data_usage = ''Editorial'', data_quality = ''High'', data_assets = datas\<rparr>)"
proof -
  let ?d = "\<lambda>u q. \<lparr>id_field = [], usage = u, quality = q, assets = map Asset_new datas,
                    model = None, boundingBox = None\<rparr>"
  have constructed: "Derivative_new u' q' (Some datas) = Inr (?d u' q')" for u' q'
    by (simp add: Derivative_new_def)
  have serialized: "toData (?d u' q') =
      \<lparr>data_usage = EDerivativeUsage_name u', data_quality = EDerivativeQuality_name q',
       data_assets = map Asset_toData (assets (?d u' q'))\<rparr>" for u' q'
    by (simp add: toData_def)
  have same: "map Asset_toData (assets (?d u' q')) = datas" for u' q'
    by (simp add: Asset_roundtrip_map del: map_map)
  from constructed [of u q] serialized [of u q] same [of u q]
  have general: "\<exists>d. Derivative_new u q (Some datas) = Inr d \<and>
        toData d = \<lparr>data_usage = EDerivativeUsage_name u,
                     data_quality = EDerivativeQuality_name q,
                     data_assets = map Asset_toData (assets d)\<rparr> \<and>
        map Asset_toData (assets d) = datas"
    by blast
  from constructed [of Editorial High] serialized [of Editorial High] same [of Editorial High]
  have special: "\<exists>d. Derivative_new Editorial High (Some datas) = Inr d \<and>
        toData d = \<lparr>data_usage = ''Editorial'', data_quality = ''High'', data_assets = datas\<rparr>"
    by simp
  from general special show ?thesis ..
qed

text \<open>
  Claim C6. For every derivative and every asset type, \<open>addAsset\<close> with the empty URI
  throws the error "uri must be specified" and leaves the derivative, so its asset list,
  as it was; with a URI that is not empty it returns normally and appends exactly one
  asset, with that URI and that type, at the end of the asset list.
\<close>

theorem addAsset_empty_uri_fails:
  "addAsset [] t0 mt d = (Some (Error ''uri must be specified''), d) \<and>
   (uri0 \<noteq> [] \<longrightarrow>
      (\<exists>asset. addAsset uri0 t0 mt d = (None, d\<lparr>assets := assets d @ [asset]\<rparr>) \<and>
         uri asset = uri0 \<and> type asset = t0 \<and>
         mapType asset = (if t0 = Texture then mt else None)))"
proof (intro conjI impI)
  show "addAsset [] t0 mt d = (Some (Error ''uri must be specified''), d)"
    by (simp add: addAsset_def)
next
  assume "uri0 \<noteq> []"
  then show "\<exists>asset. addAsset uri0 t0 mt d = (None, d\<lparr>assets := assets d @ [asset]\<rparr>) \<and>
      uri asset = uri0 \<and> type asset = t0 \<and> mapType asset = (if t0 = Texture then mt else None)"
    by (cases "t0 = Texture \<and> mt \<noteq> None") (auto simp: addAsset_def Asset_empty_def Let_def)
qed

text \<open>Claim C6 on a derivative with two assets, for the empty URI and for a URI.\<close>

theorem addAsset_empty_uri_fails_witness:
  "addAsset [] Model None d1 = (Some (Error ''uri must be specified''), d1) \<and>
   ''a.glb'' \<noteq> [] \<and>
   fst (addAsset ''a.glb'' Model None d1) = None \<and>
   assets (snd (addAsset ''a.glb'' Model None d1))
     = [geo_asset, mr_asset, \<lparr>uri = ''a.glb'', type = Model, mapType = None\<rparr>]"
  using addAsset_empty_uri_fails [of Model None d1 "''a.glb''"]
  by (simp add: addAsset_def Asset_empty_def d1_def)

subsection \<open>Loading a model\<close>

text \<open>
  Claim C4. When the asset list holds an asset of type Model, \<open>load\<close> calls the model
  loader with the first such asset and calls no other loader, so that no geometry and no
  image is loaded and no texture is assigned. When the model loader resolves, the promise of
  \<open>load\<close> resolves with the derivative itself, whose model is the loaded object as the
  loader gave it and whose bounding box is the box of that object; when the model loader
  rejects, \<open>load\<close> rejects with the same reason and the derivative is as it was.
\<close>

theorem load_model_asset_only:
  assumes "findAsset Model d = Some modelAsset"
  shows "modelAsset \<in> set (assets d) \<and> type modelAsset = Model \<and>
     snd (snd (load lm newMaterial path d)) = [LoadModelCall modelAsset path] \<and>
     (case loadModel lm modelAsset path of
        Inr obj \<Rightarrow>
          load lm newMaterial path d =
            (Resolves,
             d\<lparr>model := Some obj, boundingBox := expandByObject None obj\<rparr>,
             [LoadModelCall modelAsset path])
      | Inl e \<Rightarrow>
          load lm newMaterial path d = (Rejects e, d, [LoadModelCall modelAsset path]))"
proof -
  from assms have "modelAsset \<in> set (assets d) \<and> type modelAsset = Model"
    by (auto simp: findAsset_def find_Some_iff)
  then show ?thesis
    using assms by (simp add: load_def makeEmpty_def split: sum.splits)
qed

text \<open>
  Claim C4 on a derivative with a geometry, a colour map and a model: the model alone is
  loaded, and the loaded object keeps the texture it came with.
\<close>

theorem load_model_asset_only_witness:
  "findAsset Model d2 = Some model_asset \<and>
   load lm1 mat0 None d2 =
     (Resolves, d2\<lparr>model := Some obj0, boundingBox := Some ((2, 2, 2), (2, 2, 2))\<rparr>,
      [LoadModelCall model_asset None])"
proof -
  have found: "findAsset Model d2 = Some model_asset"
    by (simp add: findAsset_def d2_def geo_asset_def color_asset_def model_asset_def)
  have box: "expandByObject None obj0 = Some ((2, 2, 2), (2, 2, 2))"
    by (simp add: expandByObject_def expandByNode_def expandByPoint_def obj0_def)
  from load_model_asset_only [OF found, of lm1 mat0 None] show ?thesis
    using found by (simp add: lm1_def box)
qed

subsection \<open>Loading a geometry with textures\<close>

lemma fold_assign_None_slots:
  "let m' = fold (\<lambda>i m. assignTexture (as ! i) None m) js m0 in
     (map_slot m' = None \<or> map_slot m' = map_slot m0) \<and>
     (aoMap m' = None \<or> aoMap m' = aoMap m0) \<and>
     (emissiveMap m' = None \<or> emissiveMap m' = emissiveMap m0) \<and>
     (metalnessMap m' = None \<or> metalnessMap m' = metalnessMap m0) \<and>
     (roughnessMap m' = None \<or> roughnessMap m' = roughnessMap m0) \<and>
     (normalMap m' = None \<or> normalMap m' = normalMap m0)"
proof (induction js arbitrary: m0)
  case Nil
  then show ?case by simp
next
  case (Cons j js)
  show ?case
    using Cons.IH [of "assignTexture (as ! j) None m0"]
    by (auto simp: Let_def assignTexture_def split: option.splits EMapType.splits)
qed

lemma fold_assign_None_addressed:
  "j \<in> set js \<Longrightarrow> mapType (as ! j) = Some mt \<Longrightarrow>
   (let m' = fold (\<lambda>i m. assignTexture (as ! i) None m) js m0 in
     case mt of
       Color \<Rightarrow> map_slot m' = None
     | Occlusion \<Rightarrow> aoMap m' = None
     | Emissive \<Rightarrow> emissiveMap m' = None
     | MetallicRoughness \<Rightarrow> metalnessMap m' = None \<and> roughnessMap m' = None
     | Normal \<Rightarrow> normalMap m' = None)"
proof (induction js arbitrary: m0)
  case Nil
  then show ?case by simp
next
  case (Cons k js)
  let ?m1 = "assignTexture (as ! k) None m0"
  show ?case
  proof (cases "j \<in> set js")
    case True
    from Cons.IH [OF True Cons.prems(2), of ?m1] show ?thesis by (simp add: Let_def)
  next
    case False
    with Cons.prems have jk: "j = k" by simp
    have m1: "case mt of
       Color \<Rightarrow> map_slot ?m1 = None
     | Occlusion \<Rightarrow> aoMap ?m1 = None
     | Emissive \<Rightarrow> emissiveMap ?m1 = None
     | MetallicRoughness \<Rightarrow> metalnessMap ?m1 = None \<and> roughnessMap ?m1 = None
     | Normal \<Rightarrow> normalMap ?m1 = None"
      using Cons.prems(2) jk by (simp add: assignTexture_def split: EMapType.splits)
    from fold_assign_None_slots [of as js ?m1] m1 show ?thesis
      by (auto simp: Let_def split: EMapType.splits)
  qed
qed

lemma Promise_all_rejects:
  "\<exists>p \<in> set ps. isl p \<Longrightarrow> isl (Promise_all ps)"
proof (induction ps rule: Promise_all.induct)
  case 1
  then show ?case by simp
next
  case (2 e ps)
  then show ?case by simp
next
  case (3 x ps)
  then show ?case by (auto split: sum.splits)
qed

lemma assignTextures_Nil:
  "assignTextures as [] m0 = fold (\<lambda>i m. assignTexture (as ! i) None m) [0 ..< length as] m0"
  by (simp add: assignTextures_def texture_at_def)

lemma assignTextures_Nil_slots:
  "list_all2 (\<lambda>s s0. s = None \<or> s = s0) (slots (assignTextures as [] m0)) (slots m0)"
  using fold_assign_None_slots [of as "[0 ..< length as]" m0]
  by (simp add: assignTextures_Nil slots_def Let_def)

lemma assignTextures_Nil_addressed:
  assumes "a \<in> set as"
  shows "set (addressed_slots a (assignTextures as [] m0)) \<subseteq> {None}"
proof -
  from assms obtain j where j: "j < length as" "as ! j = a"
    by (auto simp: in_set_conv_nth)
  show ?thesis
  proof (cases "mapType a")
    case None
    then show ?thesis by (simp add: addressed_slots_def)
  next
    case (Some mt)
    with j have "j \<in> set [0 ..< length as]" "mapType (as ! j) = Some mt" by simp_all
    from fold_assign_None_addressed [OF this, of m0] Some show ?thesis
      by (simp add: assignTextures_Nil addressed_slots_def Let_def split: EMapType.splits)
  qed
qed

text \<open>
  Claim C1, as the code has it. For a derivative without a model asset whose geometry
  loads: when at least one of the texture loads rejects, \<open>load\<close> has issued the load of
  the geometry and of every image asset, its promise resolves, and no loaded texture is
  assigned: every slot of the material is empty or as the new material had it, and every
  slot that the map type of an image asset addresses is empty, also where the load of that
  asset has succeeded.
\<close>

theorem load_texture_failure_assigns_no_texture:
  assumes "findAsset Model d = None"
    and "findAsset Geometry d = Some geoAsset"
    and "loadGeometry lm geoAsset path = Inr g"
    and "\<exists>a \<in> set (findAssets Image d). isl (loadTexture lm a path)"
  shows "\<exists>d' mat.
     load lm newMaterial path d =
       (Resolves, d',
        LoadGeometryCall geoAsset path # map (\<lambda>a. LoadTextureCall a path) (findAssets Image d)) \<and>
     loaded_material d' = Some mat \<and>
     list_all2 (\<lambda>s s0. s = None \<or> s = s0) (slots mat) (slots newMaterial) \<and>
     (\<forall>a \<in> set (findAssets Image d). set (addressed_slots a mat) \<subseteq> {None})"
proof -
  let ?images = "findAssets Image d"
  let ?m1 = "assignTextures ?images [] newMaterial"
  let ?m2 = "if map_slot ?m1 = None
             then ?m1\<lparr>color := (0.5, 0.5, 0.5), roughness := 0.8, metalness := 0\<rparr> else ?m1"
  have rej: "isl (Promise_all (map (\<lambda>asset. loadTexture lm asset path) ?images))"
    using assms(4) by (intro Promise_all_rejects) auto
  have slots2: "slots ?m2 = slots ?m1"
    by (simp add: slots_def)
  have addr2: "addressed_slots a ?m2 = addressed_slots a ?m1" for a
    by (simp add: addressed_slots_def split: option.splits EMapType.splits)
  have "load lm newMaterial path d =
      (Resolves,
       d\<lparr>model := Some (Object3D (Some \<lparr>geometry = g, material = ?m2\<rparr>) []),
         boundingBox := expandByObject (makeEmpty (boundingBox d))
            (Object3D (Some \<lparr>geometry = g, material = newMaterial\<rparr>) [])\<rparr>,
       LoadGeometryCall geoAsset path # map (\<lambda>asset. LoadTextureCall asset path) ?images)"
    using assms(1-3) rej
    by (auto simp: load_def Let_def isl_def split: sum.splits)
  moreover have "list_all2 (\<lambda>s s0. s = None \<or> s = s0) (slots ?m2) (slots newMaterial)"
    unfolding slots2 by (rule assignTextures_Nil_slots)
  moreover have "\<forall>a \<in> set ?images. set (addressed_slots a ?m2) \<subseteq> {None}"
    unfolding addr2 using assignTextures_Nil_addressed by blast
  ultimately show ?thesis
    by (simp add: loaded_material_def)
qed

lemma d0_assets:
  "findAsset Model d0 = None" "findAsset Geometry d0 = Some geo_asset"
  "findAssets Image d0 = [color_asset, normal_asset]"
  by (simp_all add: findAsset_def findAssets_def d0_def geo_asset_def color_asset_def
      normal_asset_def)

lemma d1_assets:
  "findAsset Model d1 = None" "findAsset Geometry d1 = Some geo_asset"
  "findAssets Image d1 = [mr_asset]"
  by (simp_all add: findAsset_def findAssets_def d1_def geo_asset_def mr_asset_def)

lemma lm0_loads:
  "loadGeometry lm0 geo_asset None = Inr geo0"
  "loadTexture lm0 color_asset None = Inr 7"
  "loadTexture lm0 mr_asset None = Inr 7"
  "loadTexture lm0 normal_asset None = Inl (Rejection ''not found'')"
  by (simp_all add: lm0_def color_asset_def mr_asset_def normal_asset_def)

lemma asset_maps:
  "mapType color_asset = Some Color" "mapType normal_asset = Some Normal"
  "mapType mr_asset = Some MetallicRoughness"
  by (simp_all add: color_asset_def normal_asset_def mr_asset_def)

text \<open>
  Claim C1, as the code has it, on a geometry with a colour map that loads and a normal
  map that does not: the promise resolves and both slots are empty.
\<close>

theorem load_texture_failure_assigns_no_texture_witness:
  "findAsset Model d0 = None \<and> findAsset Geometry d0 = Some geo_asset \<and>
   loadGeometry lm0 geo_asset None = Inr geo0 \<and>
   findAssets Image d0 = [color_asset, normal_asset] \<and>
   isl (loadTexture lm0 normal_asset None) \<and>
   (\<exists>d' mat.
     load lm0 mat0 None d0 =
       (Resolves, d',
        [LoadGeometryCall geo_asset None, LoadTextureCall color_asset None,
         LoadTextureCall normal_asset None]) \<and>
     loaded_material d' = Some mat \<and> map_slot mat = None \<and> normalMap mat = None)"
proof -
  have rejected: "\<exists>a \<in> set (findAssets Image d0). isl (loadTexture lm0 a None)"
    by (simp add: d0_assets lm0_loads)
  from load_texture_failure_assigns_no_texture
    [OF d0_assets(1) d0_assets(2) lm0_loads(1) rejected, of mat0]
  show ?thesis
    by (auto simp: d0_assets lm0_loads addressed_slots_def asset_maps)
qed

text \<open>
  Claim C1 as stated fails: on the same input the colour map loads (as texture 7) and the
  normal map does not; the promise of \<open>load\<close> resolves, and the colour slot of the
  material is empty, so the texture that has loaded is not assigned.
\<close>

theorem load_texture_failure_drops_loaded_texture:
  "fst (load lm0 mat0 None d0) = Resolves \<and>
   loadTexture lm0 color_asset None = Inr 7 \<and>
   isl (loadTexture lm0 normal_asset None) \<and>
   mapType color_asset = Some Color \<and>
   loaded_material (fst (snd (load lm0 mat0 None d0)))
     = Some (mat0\<lparr>color := (0.5, 0.5, 0.5), roughness := 0.8, metalness := 0\<rparr>) \<and>
   map_slot (mat0\<lparr>color := (0.5, 0.5, 0.5), roughness := 0.8, metalness := 0\<rparr>) = None"
  by (simp add: load_def d0_assets lm0_loads Let_def assignTextures_def assignTexture_def
      texture_at_def loaded_material_def upt_rec asset_maps mat0_def)

text \<open>
  Claim C7. For a derivative without a model asset, with a geometry asset and one image
  asset whose map type is MetallicRoughness: when the geometry and the texture load, the
  promise of \<open>load\<close> resolves, and the metalness slot and the roughness slot of the
  material both hold the texture that has been loaded.
\<close>

theorem load_metallic_roughness_shares_texture:
  assumes "findAsset Model d = None"
    and "findAsset Geometry d = Some geoAsset"
    and "findAssets Image d = [imageAsset]"
    and "mapType imageAsset = Some MetallicRoughness"
    and "loadGeometry lm geoAsset path = Inr g"
    and "loadTexture lm imageAsset path = Inr t"
  shows "\<exists>d' calls mat.
     load lm newMaterial path d = (Resolves, d', calls) \<and>
     loaded_material d' = Some mat \<and>
     metalnessMap mat = Some t \<and> roughnessMap mat = Some t"
  using assms
  by (simp add: load_def Let_def assignTextures_def assignTexture_def texture_at_def
      loaded_material_def)

text \<open>Claim C7 on a geometry with a metallic-roughness map, which loads as texture 7.\<close>

theorem load_metallic_roughness_shares_texture_witness:
  "findAsset Model d1 = None \<and> findAsset Geometry d1 = Some geo_asset \<and>
   findAssets Image d1 = [mr_asset] \<and> mapType mr_asset = Some MetallicRoughness \<and>
   loadGeometry lm0 geo_asset None = Inr geo0 \<and> loadTexture lm0 mr_asset None = Inr 7 \<and>
   (\<exists>d' calls mat.
     load lm0 mat0 None d1 = (Resolves, d', calls) \<and>
     loaded_material d' = Some mat \<and>
     metalnessMap mat = Some 7 \<and> roughnessMap mat = Some 7)"
proof -
  note mr = asset_maps(3)
  from load_metallic_roughness_shares_texture
    [OF d1_assets(1) d1_assets(2) d1_assets(3) mr lm0_loads(1) lm0_loads(3), of mat0]
  show ?thesis
    by (simp add: d1_assets lm0_loads mr)
qed

subsection \<open>Disposal\<close>

lemma release_slot_present:
  "release_slot slot = map ReleaseTexture (case slot of None \<Rightarrow> [] | Some t \<Rightarrow> [t])"
  by (cases slot) (simp_all add: release_slot_def)

lemma disposeMesh_calls: "disposeMesh m = mesh_release_calls m"
  by (simp add: disposeMesh_def mesh_release_calls_def present_textures_def slots_def Let_def
      release_slot_present)

lemma dispose_nodes_calls:
  "concat (map (\<lambda>node. case mesh node of Some mesh0 \<Rightarrow> disposeMesh mesh0 | None \<Rightarrow> []) nodes)
     = concat (map mesh_release_calls
         (concat (map (\<lambda>node. case mesh node of None \<Rightarrow> [] | Some m \<Rightarrow> [m]) nodes)))"
  by (induction nodes) (simp_all add: disposeMesh_calls split: option.splits)

lemma dispose_calls: "dispose d released = (d, released @ model_release_calls d)"
  by (cases "model d")
    (simp_all add: dispose_def model_release_calls_def meshes_of_def dispose_nodes_calls)

lemma length_present_textures:
  "length (present_textures m) = length (filter (\<lambda>slot. slot \<noteq> None) (slots m))"
proof -
  have "length (concat (map (\<lambda>slot. case slot of None \<Rightarrow> [] | Some t \<Rightarrow> [t]) ss))
      = length (filter (\<lambda>slot. slot \<noteq> None) ss)" for ss :: "Texture option list"
    by (induction ss) (simp_all split: option.splits)
  then show ?thesis by (simp add: present_textures_def)
qed

lemma count_mesh_release_calls:
  "count_list (mesh_release_calls m) (ReleaseGeometry g) = (if gid (geometry m) = g then 1 else 0)"
  "count_list (mesh_release_calls m) (ReleaseTexture t) = count_list (slots (material m)) (Some t)"
proof -
  have no_geometry: "count_list (map ReleaseTexture ts) (ReleaseGeometry g) = 0" for ts
    by (induction ts) simp_all
  show "count_list (mesh_release_calls m) (ReleaseGeometry g)
      = (if gid (geometry m) = g then 1 else 0)"
    by (simp add: mesh_release_calls_def no_geometry)
  have textures: "count_list (map ReleaseTexture ts) (ReleaseTexture t) = count_list ts t" for ts
    by (induction ts) simp_all
  have present: "count_list (concat (map (\<lambda>slot. case slot of None \<Rightarrow> [] | Some t \<Rightarrow> [t]) ss)) t
      = count_list ss (Some t)" for ss :: "Texture option list"
    by (induction ss) (auto split: option.splits)
  show "count_list (mesh_release_calls m) (ReleaseTexture t)
      = count_list (slots (material m)) (Some t)"
    by (simp add: mesh_release_calls_def textures present_textures_def present)
qed

text \<open>
  Claim C2, as the code has it. \<open>dispose\<close> has no statement that throws and changes no
  field of the derivative. A call makes exactly the release calls due for the model, in
  order: for every mesh, in the order of traversal, one for its geometry and then one for
  every map slot that is not empty (an empty slot is skipped, and a texture that several
  slots hold is released once for each of them). A second call makes exactly the same
  release calls once more, on the resources the first call has already released.
\<close>

theorem dispose_twice_repeats_release_calls:
  "dispose d released = (d, released @ model_release_calls d) \<and>
   dispose (fst (dispose d released)) (snd (dispose d released))
     = (d, released @ model_release_calls d @ model_release_calls d) \<and>
   length (mesh_release_calls m)
     = Suc (length (filter (\<lambda>slot. slot \<noteq> None) (slots (material m)))) \<and>
   count_list (mesh_release_calls m) (ReleaseGeometry g)
     = (if gid (geometry m) = g then 1 else 0) \<and>
   count_list (mesh_release_calls m) (ReleaseTexture t)
     = count_list (slots (material m)) (Some t)"
proof (intro conjI)
  show "dispose d released = (d, released @ model_release_calls d)"
    by (rule dispose_calls)
  show "dispose (fst (dispose d released)) (snd (dispose d released))
      = (d, released @ model_release_calls d @ model_release_calls d)"
    by (simp add: dispose_calls)
  show "length (mesh_release_calls m)
      = Suc (length (filter (\<lambda>slot. slot \<noteq> None) (slots (material m))))"
    by (simp add: mesh_release_calls_def length_present_textures)
qed (rule count_mesh_release_calls)+

text \<open>
  Claim C2 as stated fails: on a derivative loaded from a geometry (1) with a
  metallic-roughness map (texture 7), the first \<open>dispose\<close> releases the geometry and, for
  the two slots, the texture twice; the second \<open>dispose\<close> makes the same three release
  calls again.
\<close>

theorem dispose_twice_releases_again:
  "fst (load lm0 mat0 None d1) = Resolves \<and>
   snd (dispose (fst (snd (load lm0 mat0 None d1))) [])
     = [ReleaseGeometry 1, ReleaseTexture 7, ReleaseTexture 7] \<and>
   snd (dispose (fst (dispose (fst (snd (load lm0 mat0 None d1))) []))
          (snd (dispose (fst (snd (load lm0 mat0 None d1))) [])))
     = [ReleaseGeometry 1, ReleaseTexture 7, ReleaseTexture 7,
        ReleaseGeometry 1, ReleaseTexture 7, ReleaseTexture 7]"
  by (simp add: load_def d1_assets lm0_loads asset_maps mat0_def geo0_def Let_def
      assignTextures_def assignTexture_def texture_at_def dispose_def disposeMesh_def
      release_slot_def)

section \<open>Properties of the loading signal\<close>

lemma loader_inv_step:
  "loader_inv s \<Longrightarrow> wf_items (outstanding s) (ev # evs) \<Longrightarrow>
     loader_inv (item_step s ev) \<and> wf_items (outstanding (item_step s ev)) evs"
  by (cases ev)
    (auto simp: loader_inv_def outstanding_def itemStart_def itemEnd_def itemError_def
      onLoadingStart_def onLoadingProgress_def onLoadingCompleted_def onLoadingError_def
      Let_def Suc_diff_le split: if_splits)

lemma loader_inv_run:
  "loader_inv s \<Longrightarrow> wf_items (outstanding s) evs \<Longrightarrow> loader_inv (run_items evs s)"
proof (induction evs arbitrary: s)
  case Nil
  then show ?case by (simp add: run_items_def)
next
  case (Cons ev evs)
  from loader_inv_step [OF Cons.prems] Cons.IH [of "item_step s ev"]
  show ?case by (simp add: run_items_def)
qed

lemma no_error_step:
  "loading s = isLoading s \<Longrightarrow> \<not> is_error ev \<Longrightarrow>
     loading (item_step s ev) = isLoading (item_step s ev)"
  by (cases ev)
    (auto simp: itemStart_def itemEnd_def
      onLoadingStart_def onLoadingProgress_def onLoadingCompleted_def Let_def)

lemma no_error_run:
  "loading s = isLoading s \<Longrightarrow> \<not> list_ex is_error evs \<Longrightarrow>
     loading (run_items evs s) = isLoading (run_items evs s)"
proof (induction evs arbitrary: s)
  case Nil
  then show ?case by (simp add: run_items_def)
next
  case (Cons ev evs)
  from Cons.prems have "loading (item_step s ev) = isLoading (item_step s ev)"
    by (intro no_error_step) simp_all
  from Cons.IH [OF this] Cons.prems(2) show ?case by (simp add: run_items_def)
qed

lemma idle_inv: "loader_inv idle" "outstanding idle = 0" "loading idle = isLoading idle"
  by (simp_all add: loader_inv_def idle_def outstanding_def)

text \<open>
  Claim C3, as the code has it. After any sequence of item reports from the idle state:
  the start of an item while no load is outstanding sets \<open>loading\<close>; the end of the last
  outstanding item clears it; an error clears it, whether or not other loads are
  outstanding; \<open>loading\<close> is never set while no load is outstanding; and as long as no
  error has been reported, \<open>loading\<close> is set exactly when a load is outstanding.
\<close>

theorem loading_signal_follows_callbacks:
  assumes "wf_items 0 evs"
  shows "(outstanding (run_items evs idle) = 0 \<longrightarrow> loading (itemStart u (run_items evs idle))) \<and>
     (outstanding (run_items evs idle) = 1 \<longrightarrow> \<not> loading (itemEnd u (run_items evs idle))) \<and>
     \<not> loading (itemError u (run_items evs idle)) \<and>
     (loading (run_items evs idle) \<longrightarrow> 0 < outstanding (run_items evs idle)) \<and>
     (\<not> list_ex is_error evs \<longrightarrow>
        loading (run_items evs idle) = (0 < outstanding (run_items evs idle)))"
proof -
  let ?s = "run_items evs idle"
  have inv: "loader_inv ?s"
    using assms by (intro loader_inv_run) (simp_all add: idle_inv)
  have a: "outstanding ?s = 0 \<longrightarrow> loading (itemStart u ?s)"
    using inv by (auto simp: loader_inv_def outstanding_def itemStart_def onLoadingStart_def Let_def)
  have b: "outstanding ?s = 1 \<longrightarrow> \<not> loading (itemEnd u ?s)"
    using inv by (auto simp: loader_inv_def outstanding_def itemEnd_def onLoadingProgress_def
        onLoadingCompleted_def Let_def)
  have c: "\<not> loading (itemError u ?s)"
    by (simp add: itemError_def onLoadingError_def)
  have d: "loading ?s \<longrightarrow> 0 < outstanding ?s"
    using inv by (auto simp: loader_inv_def outstanding_def split: if_splits)
  have e: "\<not> list_ex is_error evs \<longrightarrow> loading ?s = (0 < outstanding ?s)"
    using inv no_error_run [of idle evs]
    by (auto simp: loader_inv_def outstanding_def idle_inv)
  from a b c d e show ?thesis by blast
qed

lemma run_one_start:
  "run_items [] idle
     = \<lparr>itemsLoaded = 0, itemsTotal = 0, isLoading = False, loading = False\<rparr>"
  "run_items [ItemStart ''a''] idle
     = \<lparr>itemsLoaded = 0, itemsTotal = 1, isLoading = True, loading = True\<rparr>"
  by (simp_all add: run_items_def idle_def itemStart_def onLoadingStart_def Let_def)

text \<open>
  Claim C3, as the code has it, in the idle state and after one item has started: the
  start of the first item sets \<open>loading\<close>; with that one load outstanding \<open>loading\<close> is
  set, and the end of the item, or an error, clears it.
\<close>

theorem loading_signal_follows_callbacks_witness:
  "wf_items 0 [] \<and> outstanding (run_items [] idle) = 0 \<and>
   loading (itemStart ''a'' (run_items [] idle)) \<and>
   wf_items 0 [ItemStart ''a''] \<and> \<not> list_ex is_error [ItemStart ''a''] \<and>
   outstanding (run_items [ItemStart ''a''] idle) = 1 \<and>
   loading (run_items [ItemStart ''a''] idle) \<and>
   \<not> loading (itemEnd ''a'' (run_items [ItemStart ''a''] idle)) \<and>
   \<not> loading (itemError ''a'' (run_items [ItemStart ''a''] idle))"
proof -
  have wf0: "wf_items 0 []" and wf1: "wf_items 0 [ItemStart ''a'']"
    by simp_all
  have out: "outstanding (run_items [] idle) = 0"
    "outstanding (run_items [ItemStart ''a''] idle) = 1"
    by (simp_all add: run_one_start outstanding_def)
  from loading_signal_follows_callbacks [OF wf0, of "''a''"]
    loading_signal_follows_callbacks [OF wf1, of "''a''"]
  show ?thesis
    using out by simp
qed

text \<open>
  Claim C3 as stated fails: two items start, and the first one fails. The error clears
  \<open>loading\<close> while two loads are outstanding, and \<open>loading\<close> stays clear when the failed
  item has ended and the other load is still in flight.
\<close>

theorem loading_cleared_by_error_with_loads_in_flight:
  "wf_items 0 [ItemStart ''a'', ItemStart ''b'', ItemError ''a'', ItemEnd ''a''] \<and>
   loading (run_items [ItemStart ''a'', ItemStart ''b''] idle) \<and>
   \<not> loading (run_items [ItemStart ''a'', ItemStart ''b'', ItemError ''a''] idle) \<and>
   outstanding (run_items [ItemStart ''a'', ItemStart ''b'', ItemError ''a''] idle) = 2 \<and>
   \<not> loading (run_items [ItemStart ''a'', ItemStart ''b'', ItemError ''a'', ItemEnd ''a''] idle) \<and>
   outstanding (run_items [ItemStart ''a'', ItemStart ''b'', ItemError ''a'', ItemEnd ''a''] idle) = 1"
  by (simp add: run_items_def idle_def outstanding_def itemStart_def itemEnd_def itemError_def
      onLoadingStart_def onLoadingProgress_def onLoadingCompleted_def onLoadingError_def Let_def)

section \<open>Properties of the scene's bounding box\<close>

lemma vmin_assoc: "vmin (vmin a b) c = vmin a (vmin b c)"
  by (cases a, cases b, cases c) (simp add: vmin_def min.assoc)

lemma vmax_assoc: "vmax (vmax a b) c = vmax a (vmax b c)"
  by (cases a, cases b, cases c) (simp add: vmax_def max.assoc)

lemma union_box_None [simp]: "union_box None b = b" "union_box a None = a"
  by (simp_all add: union_box_def split: option.splits)

lemma union_box_assoc: "union_box (union_box a b) c = union_box a (union_box b c)"
  by (cases a; cases b; cases c) (auto simp: union_box_def vmin_assoc vmax_assoc)

lemma expandByPoint_as_union: "expandByPoint b p = union_box b (Some (p, p))"
  by (cases b) (auto simp: expandByPoint_def union_box_def)

text \<open>Expanding a box by points is the union of the box with the box of the points.\<close>

lemma foldl_expandByPoint_union:
  "foldl expandByPoint b ps = union_box b (foldl expandByPoint None ps)"
proof (induction ps rule: rev_induct)
  case Nil
  then show ?case by simp
next
  case (snoc p ps)
  have "foldl expandByPoint b (ps @ [p]) = union_box (foldl expandByPoint b ps) (Some (p, p))"
    by (simp add: expandByPoint_as_union)
  also have "\<dots> = union_box (union_box b (foldl expandByPoint None ps)) (Some (p, p))"
    using snoc.IH by simp
  also have "\<dots> = union_box b (foldl expandByPoint None (ps @ [p]))"
    by (simp add: union_box_assoc expandByPoint_as_union)
  finally show ?case .
qed

lemma expandByNode_union: "expandByNode b n = union_box b (expandByNode None n)"
  by (cases "mesh n") (simp_all add: expandByNode_def foldl_expandByPoint_union [of b])

lemma foldl_expandByNode_union:
  "foldl expandByNode b ns = union_box b (foldl expandByNode None ns)"
proof (induction ns rule: rev_induct)
  case Nil
  then show ?case by simp
next
  case (snoc n ns)
  have "foldl expandByNode b (ns @ [n]) = union_box (foldl expandByNode b ns) (expandByNode None n)"
    by (simp add: expandByNode_union [of "foldl expandByNode b ns"])
  also have "\<dots> = union_box (union_box b (foldl expandByNode None ns)) (expandByNode None n)"
    using snoc.IH by simp
  also have "\<dots> = union_box b (foldl expandByNode None (ns @ [n]))"
    by (simp add: union_box_assoc expandByNode_union [of "foldl expandByNode None ns"])
  finally show ?case .
qed

lemma expandByObject_union:
  "expandByObject b obj = union_box b (expandByObject None obj)"
  unfolding expandByObject_def by (rule foldl_expandByNode_union)

lemma aggregate_union:
  "foldl (\<lambda>b m. expandByObject b (object3D m)) b ms = foldl union_box b (map model_box ms)"
proof (induction ms arbitrary: b)
  case Nil
  then show ?case by simp
next
  case (Cons m ms)
  show ?case
    by (simp add: Cons.IH expandByObject_union [of b] model_box_def)
qed

lemma updateModelBoundingBox_union:
  "modelBoundingBox (updateModelBoundingBox s) = union_boxes (map model_box (models s))"
  "emitted (updateModelBoundingBox s) = emitted s @ [''bounding-box'']"
  by (simp_all add: updateModelBoundingBox_def Let_def makeEmpty_def aggregate_union
      union_boxes_def)

lemma onModelComponent_union:
  "modelBoundingBox (onModelComponent ev s) = union_boxes (map model_box (models s))"
  "emitted (onModelComponent ev s) = emitted s @ [''bounding-box'']"
  by (simp_all add: onModelComponent_def Let_def updateModelBoundingBox_union)

text \<open>
  Claim C8. Whenever the scene handles the addition or the removal of a model, the
  aggregate box is recomputed as the union of the boxes of the models the graph holds at
  that moment, and the event "bounding-box" is emitted after the recomputation; so after
  a model has been added it is the union over the members with the new model, and after a
  model has been removed the union over the remaining members. The same holds when the
  scene is updated after its units have changed, and when a member model the scene listens
  to reports a change of its bounding box. In particular, after the addition of a model to
  a scene without models the aggregate box is the model's own box, and after the removal
  of the last model it is empty.
\<close>

theorem scene_bounding_box_is_union_of_members:
  "modelBoundingBox (onModelComponent ev s) = union_boxes (map model_box (models s)) \<and>
   emitted (onModelComponent ev s) = emitted s @ [''bounding-box''] \<and>
   modelBoundingBox (graph_add m s) = union_boxes (map model_box (models s @ [m])) \<and>
   emitted (graph_add m s) = emitted s @ [''bounding-box''] \<and>
   modelBoundingBox (graph_remove m s) = union_boxes (map model_box (remove1 m (models s))) \<and>
   emitted (graph_remove m s) = emitted s @ [''bounding-box''] \<and>
   (units_changed s \<longrightarrow>
      modelBoundingBox (fst (update s)) = union_boxes (map model_box (models s)) \<and>
      emitted (fst (update s)) = emitted s @ [''bounding-box'']) \<and>
   (model_id m \<in> set (listening s) \<longrightarrow>
      modelBoundingBox (model_bounding_box_event m s) = union_boxes (map model_box (models s)) \<and>
      emitted (model_bounding_box_event m s) = emitted s @ [''bounding-box'']) \<and>
   (models s = [] \<longrightarrow> modelBoundingBox (graph_add m s) = model_box m) \<and>
   (models s = [m] \<longrightarrow> modelBoundingBox (graph_remove m s) = None)"
  by (simp add: graph_add_def graph_remove_def update_def model_bounding_box_event_def
      onModelComponent_union updateModelBoundingBox_union union_boxes_def)

lemma model0_box: "model_box model0 = Some ((0, 0, 0), (1, 2, 3))"
  by (simp add: model_box_def model0_def geo0_def expandByObject_def expandByNode_def
      expandByPoint_def vmin_def vmax_def)

lemma scene0_add:
  "graph_add model0 scene0 =
     \<lparr>units = JNum 1, units_changed = True, models = [model0], listening = [1], linked = [1],
      modelBoundingBox = Some ((0, 0, 0), (1, 2, 3)), emitted = [''bounding-box'']\<rparr>"
proof -
  have "expandByObject None (object3D model0) = Some ((0, 0, 0), (1, 2, 3))"
    using model0_box by (simp add: model_box_def)
  then show ?thesis
    by (simp add: graph_add_def onModelComponent_def updateModelBoundingBox_def scene0_def
        Let_def makeEmpty_def) (simp add: model0_def)
qed

text \<open>
  Claim C8 on a scene without models, whose units have changed: a model is added, reports
  a change of its box, and is removed.
\<close>

theorem scene_bounding_box_is_union_of_members_witness:
  "models scene0 = [] \<and> units_changed scene0 \<and>
   modelBoundingBox (fst (update scene0)) = None \<and>
   emitted (fst (update scene0)) = [''bounding-box''] \<and>
   modelBoundingBox (graph_add model0 scene0) = Some ((0, 0, 0), (1, 2, 3)) \<and>
   model_box model0 = Some ((0, 0, 0), (1, 2, 3)) \<and>
   models (graph_add model0 scene0) = [model0] \<and>
   model_id model0 \<in> set (listening (graph_add model0 scene0)) \<and>
   modelBoundingBox (model_bounding_box_event model0 (graph_add model0 scene0))
     = Some ((0, 0, 0), (1, 2, 3)) \<and>
   emitted (model_bounding_box_event model0 (graph_add model0 scene0))
     = [''bounding-box'', ''bounding-box''] \<and>
   modelBoundingBox (graph_remove model0 (graph_add model0 scene0)) = None \<and>
   emitted (graph_remove model0 (graph_add model0 scene0)) = [''bounding-box'', ''bounding-box'']"
proof -
  have s0: "models scene0 = []" "units_changed scene0" "emitted scene0 = []"
    by (simp_all add: scene0_def)
  have s1: "models (graph_add model0 scene0) = [model0]"
    "model_id model0 \<in> set (listening (graph_add model0 scene0))"
    "emitted (graph_add model0 scene0) = [''bounding-box'']"
    by (simp_all add: scene0_add) (simp add: model0_def)
  let ?ev = "\<lparr>add = True, remove = False, object = model0\<rparr>"
  from scene_bounding_box_is_union_of_members [of ?ev scene0 model0]
    scene_bounding_box_is_union_of_members [of ?ev "graph_add model0 scene0" model0]
  show ?thesis
    using s0 s1 by (simp add: model0_box union_boxes_def)
qed

section \<open>Properties of reading enumerations\<close>

lemma find_name_None:
  "find (\<lambda>i. names ! i = key) [0 ..< length names] = None \<longleftrightarrow> key \<notin> set names"
  by (auto simp: find_None_iff in_set_conv_nth)

lemma find_decimal_None:
  "find (\<lambda>i. decimal i = key) [0 ..< length names] = None
     \<longleftrightarrow> key \<notin> decimal ` {..< length names}"
  by (auto simp: find_None_iff)

text \<open>
  A lookup in an enumeration is undefined exactly for a key that is not a member name,
  not the decimal form of a member's index and not the name of a property every object
  inherits.
\<close>

lemma enum_get_Undefined_iff:
  "enum_get names key = JUndefined \<longleftrightarrow>
     key \<notin> set names \<and> key \<notin> decimal ` {..< length names} \<and> key \<notin> set Object_prototype_keys"
proof (cases "find (\<lambda>i. names ! i = key) [0 ..< length names]")
  case None
  note n1 = None
  show ?thesis
  proof (cases "find (\<lambda>i. decimal i = key) [0 ..< length names]")
    case None
    with n1 show ?thesis
      using find_name_None [of names key] find_decimal_None [of key names]
      by (simp add: enum_get_def)
  next
    case (Some i)
    with n1 show ?thesis
      using find_decimal_None [of key names]
      by (simp add: enum_get_def)
  qed
next
  case (Some i)
  then show ?thesis
    using find_name_None [of names key]
    by (simp add: enum_get_def)
qed

text \<open>For such a key both readers take their default.\<close>

lemma fromData_position_unknown:
  "enum_get names (key_of (data_position data)) = JUndefined \<Longrightarrow>
     position (CVReader_fromData names (Some data) r) = enum_get names ''Overlay''"
  by (simp add: CVReader_fromData_def js_or_def)

lemma fromDocument_units_unknown:
  "enum_get names (key_of su) = JUndefined \<Longrightarrow>
     units (CVScene_fromDocument names su sc) = JNum 0"
  by (simp add: CVScene_fromDocument_def js_or_def)

text \<open>The decimal form of a number determines the number.\<close>

lemma decimal_nonempty: "decimal n \<noteq> []"
  by (subst decimal.simps) simp

lemma decimal_last: "last (decimal n) = digit_char (n mod 10)"
  by (subst decimal.simps) simp

lemma decimal_butlast: "butlast (decimal n) = (if n < 10 then [] else decimal (n div 10))"
  by (subst decimal.simps) (simp add: butlast_append)

lemma digit_char_inj:
  assumes "a < 10" and "b < 10" and "digit_char a = digit_char b"
  shows "a = b"
proof -
  have "distinct ''0123456789''" by simp
  moreover have "a < length ''0123456789''" "b < length ''0123456789''"
    using assms by simp_all
  ultimately show ?thesis
    using assms(3) unfolding digit_char_def by (simp only: nth_eq_iff_index_eq)
qed

lemma decimal_inj: "decimal n = decimal m \<Longrightarrow> n = m"
proof (induction n arbitrary: m rule: decimal.induct)
  case (1 n)
  from "1.prems" have "last (decimal n) = last (decimal m)" by simp
  then have "digit_char (n mod 10) = digit_char (m mod 10)"
    by (simp add: decimal_last)
  then have units: "n mod 10 = m mod 10"
    by (intro digit_char_inj) simp_all
  from "1.prems" have "butlast (decimal n) = butlast (decimal m)" by simp
  then have rest: "(if n < 10 then [] else decimal (n div 10))
      = (if m < 10 then [] else decimal (m div 10))"
    by (simp only: decimal_butlast)
  show ?case
  proof (cases "n < 10")
    case True
    with rest have "m < 10"
      using decimal_nonempty [of "m div 10"] by (auto split: if_splits)
    with True units show ?thesis by simp
  next
    case False
    with rest have m: "\<not> m < 10"
      using decimal_nonempty [of "n div 10"] by (auto split: if_splits)
    with False rest have "decimal (n div 10) = decimal (m div 10)" by simp
    from "1.IH" [OF False this] have "n div 10 = m div 10" .
    with units show ?thesis
      by (metis div_mult_mod_eq)
  qed
qed

text \<open>
  The decimal form of a member's index is a key of every enumeration, whatever its
  members are called: the lookup gives the member's name, and both readers take that
  name, not their default.
\<close>

lemma enum_get_index:
  assumes "i < length names" and "decimal i \<notin> set names"
  shows "enum_get names (decimal i) = JStr (names ! i)"
proof -
  have "find (\<lambda>j. names ! j = decimal i) [0 ..< length names] = None"
    using assms(2) by (simp add: find_name_None)
  moreover have "find (\<lambda>j. decimal j = decimal i) [0 ..< length names] = Some i"
    using assms(1) by (auto simp: find_Some_iff dest: decimal_inj intro!: exI [of _ i])
  ultimately show ?thesis
    by (simp add: enum_get_def)
qed

lemma fromDocument_units_index:
  assumes "i < length names" and "decimal i \<notin> set names" and "names ! i \<noteq> []"
  shows "units (CVScene_fromDocument names (Some (decimal i)) sc) = JStr (names ! i)"
  using assms by (simp add: CVScene_fromDocument_def js_or_def key_of_def enum_get_index)

lemma fromData_position_index:
  assumes "i < length names" and "decimal i \<notin> set names" and "names ! i \<noteq> []"
    and "data_position data = Some (decimal i)"
  shows "position (CVReader_fromData names (Some data) r) = JStr (names ! i)"
  using assms by (simp add: CVReader_fromData_def js_or_def key_of_def enum_get_index)

lemma enum_lookups:
  "enum_get position_names ''Overlay'' = JNum 0"
  "enum_get position_names ''Top'' = JUndefined"
  "enum_get position_names ''1'' = JStr ''Left''"
  "enum_get unit_names ''furlong'' = JUndefined"
  "enum_get unit_names ''0'' = JStr ''mm''"
  "enum_get unit_names ''constructor'' = JInherited ''constructor''"
  by (simp_all add: enum_get_def position_names_def unit_names_def upt_rec decimal.simps
      digit_char_def Object_prototype_keys_def)

text \<open>
  Claim C9: on reading a persisted document, an enumeration string that names no member
  of its enumeration is read as index 0. The two readers take their default when the
  lookup of the string in the enumeration is falsy, as for the scene units "furlong" and
  the reader position "Top". The scene units "0" and "constructor" and the reader
  position "1" name no member either, yet their lookup gives a string or an inherited
  property, and that value is read, not index 0.
\<close>

theorem index_string_read_as_member_name:
  "''furlong'' \<notin> set unit_names \<and>
   units (CVScene_fromDocument unit_names (Some ''furlong'') scene0) = JNum 0 \<and>
   ''Top'' \<notin> set position_names \<and>
   position (CVReader_fromData position_names
       (Some \<lparr>data_visible = Some True, data_position = Some ''Top'', data_url = None\<rparr>)
       reader0) = JNum 0 \<and>
   ''0'' \<notin> set unit_names \<and>
   units (CVScene_fromDocument unit_names (Some ''0'') scene0) = JStr ''mm'' \<and>
   ''constructor'' \<notin> set unit_names \<and>
   units (CVScene_fromDocument unit_names (Some ''constructor'') scene0)
     = JInherited ''constructor'' \<and>
   ''1'' \<notin> set position_names \<and>
   position (CVReader_fromData position_names
       (Some \<lparr>data_visible = Some True, data_position = Some ''1'', data_url = None\<rparr>)
       reader0) = JStr ''Left''"
  by (simp add: CVScene_fromDocument_def CVReader_fromData_def js_or_def key_of_def
      enum_lookups) (simp add: unit_names_def position_names_def)

end
